theory Spec2Isabelle
  imports Complex_Main
begin

section \<open>Configuration (config.py)\<close>

text \<open>
  The module \<open>config\<close> holds four constants and derives the two initial velocity
  components from them.  Python floats are modelled as the real numbers throughout:
  the development states what the arithmetic of the program computes, not how it rounds.
  The module is a record of its constants, so that statements can range over every
  launch configuration; \<open>config_py\<close> is the configuration as the file has it.
\<close>

record config =
  InitialHeight :: real
  Theta :: real
  Velocity :: real
  Gravity :: real

definition config_py :: config where
  "config_py = \<lparr>InitialHeight = 0, Theta = 45, Velocity = 9, Gravity = - 9.81\<rparr>"

text \<open>\<open>math.radians\<close>: degrees to radians.\<close>

definition radians :: "real \<Rightarrow> real" where
  "radians d = d * pi / 180"

definition initialVelocityX :: "config \<Rightarrow> real" where
  "initialVelocityX c = cos (radians (Theta c)) * Velocity c"

definition initialVelocityY :: "config \<Rightarrow> real" where
  "initialVelocityY c = sin (radians (Theta c)) * Velocity c"


section \<open>The physics update of the game loop (Renderer.py)\<close>

definition WIDTH :: real where "WIDTH = 800"
definition HEIGHT :: real where "HEIGHT = 600"
definition GROUND_Y :: real where "GROUND_Y = HEIGHT - 100"
definition PIXELS_PER_METER :: real where "PIXELS_PER_METER = HEIGHT / 10.0"

text \<open>
  The loop keeps four module-level variables: the pixel position of the bottom of the
  ball and the velocity in metres per second.
\<close>

record ball =
  ball_bottom_x :: real
  ball_bottom_y :: real
  vx :: real
  vy :: real

text \<open>Lines 30 to 37: the state before the first frame.\<close>

definition initial_ball :: "config \<Rightarrow> ball" where
  "initial_ball c =
     (let x = 0;
          y = InitialHeight c
      in \<lparr>ball_bottom_x = x * PIXELS_PER_METER,
          ball_bottom_y = GROUND_Y - (y * PIXELS_PER_METER),
          vx = initialVelocityX c,
          vy = initialVelocityY c\<rparr>)"

text \<open>Line 65: the guard of the physics update.\<close>

definition airborne :: "ball \<Rightarrow> bool" where
  "airborne s \<longleftrightarrow> ball_bottom_y s < GROUND_Y \<or> (vx s \<noteq> 0 \<or> vy s \<noteq> 0)"

text \<open>Lines 67 to 71: velocity first, then the position with the new velocity.\<close>

definition integrate :: "config \<Rightarrow> real \<Rightarrow> ball \<Rightarrow> ball" where
  "integrate c delta_time s =
     (let vy1 = vy s + Gravity c * delta_time;
          bx1 = ball_bottom_x s + vx s * delta_time * PIXELS_PER_METER;
          by1 = ball_bottom_y s - vy1 * delta_time * PIXELS_PER_METER
      in \<lparr>ball_bottom_x = bx1, ball_bottom_y = by1, vx = vx s, vy = vy1\<rparr>)"

text \<open>Lines 74 to 78: the ground check.\<close>

definition ground_check :: "ball \<Rightarrow> ball" where
  "ground_check s =
     (if ball_bottom_y s \<ge> GROUND_Y
      then s\<lparr>ball_bottom_y := GROUND_Y, vx := 0, vy := 0\<rparr>
      else s)"

text \<open>Lines 65 to 78: what one frame does to the state.\<close>

definition physics_update :: "config \<Rightarrow> real \<Rightarrow> ball \<Rightarrow> ball" where
  "physics_update c delta_time s =
     (if airborne s then ground_check (integrate c delta_time s) else s)"

text \<open>
  The loop runs until a quit event arrives, which may be never.  A run is driven by the
  frames that were observed: for each frame whether a quit event was in the queue, and
  the frame's \<open>delta_time\<close>.  The frame that sees the quit event still updates the
  physics, since \<open>running\<close> is only tested at the top of the loop.
\<close>

type_synonym frame = "bool \<times> real"

fun game_loop :: "config \<Rightarrow> frame list \<Rightarrow> ball \<Rightarrow> ball" where
  "game_loop c [] s = s"
| "game_loop c ((quit, delta_time) # frames) s =
     (let s' = physics_update c delta_time s
      in if quit then s' else game_loop c frames s')"

text \<open>
  World coordinates in metres, read back from the pixel state: the inverse of the
  conversion of lines 36 and 37 (the y axis of the display points down).
\<close>

definition world_x :: "ball \<Rightarrow> real" where
  "world_x s = ball_bottom_x s / PIXELS_PER_METER"

definition world_y :: "ball \<Rightarrow> real" where
  "world_y s = (GROUND_Y - ball_bottom_y s) / PIXELS_PER_METER"


section \<open>The recorder (logger.py)\<close>

datatype py_error = OSError | IndexError | EOFError

text \<open>
  A CSV file is kept as its rows, a row as its cells; a cell is the text or the number
  that \<open>csv.writer\<close> was given (how a float prints is left out).  The file system
  maps a name to the rows of the file; \<open>open\<close> raises \<open>OSError\<close> for the names
  in \<open>unwritable\<close> (a directory, a read-only place, the empty name).
\<close>

datatype cell = Text string | Number real

type_synonym row = "cell list"

record filesystem =
  contents :: "string \<rightharpoonup> row list"
  unwritable :: "string set"

text \<open>\<open>open(name, 'w')\<close> truncates or creates, \<open>open(name, 'a')\<close> keeps what is there.\<close>

definition open_w :: "filesystem \<Rightarrow> string \<Rightarrow> py_error + filesystem" where
  "open_w fs name =
     (if name \<in> unwritable fs then Inl OSError
      else Inr (fs\<lparr>contents := (contents fs)(name \<mapsto> [])\<rparr>))"

definition open_a :: "filesystem \<Rightarrow> string \<Rightarrow> py_error + filesystem" where
  "open_a fs name =
     (if name \<in> unwritable fs then Inl OSError
      else Inr (fs\<lparr>contents := (contents fs)(name \<mapsto>
                   (case contents fs name of None \<Rightarrow> [] | Some rows \<Rightarrow> rows))\<rparr>))"

definition writerow :: "filesystem \<Rightarrow> string \<Rightarrow> row \<Rightarrow> filesystem" where
  "writerow fs name r =
     fs\<lparr>contents := (contents fs)(name \<mapsto>
          (case contents fs name of None \<Rightarrow> [] | Some rows \<Rightarrow> rows) @ [r])\<rparr>"

text \<open>
  \<open>datetime.now().strftime("%Y%m%d_%H%M%S")\<close>: each field in decimal, padded with
  zeros on the left to four digits for the year and two for the others.
\<close>

record datetime =
  year :: nat
  month :: nat
  day :: nat
  hour :: nat
  minute :: nat
  second :: nat

definition digit :: "nat \<Rightarrow> char" where
  "digit d = char_of (48 + d)"

fun decimal :: "nat \<Rightarrow> string" where
  "decimal n = (if n < 10 then [digit n] else decimal (n div 10) @ [digit (n mod 10)])"

declare decimal.simps [simp del]

definition zfill :: "nat \<Rightarrow> string \<Rightarrow> string" where
  "zfill w s = replicate (w - length s) CHR ''0'' @ s"

definition strftime :: "datetime \<Rightarrow> string" where
  "strftime t =
     zfill 4 (decimal (year t)) @ zfill 2 (decimal (month t)) @ zfill 2 (decimal (day t))
     @ ''_''
     @ zfill 2 (decimal (hour t)) @ zfill 2 (decimal (minute t)) @ zfill 2 (decimal (second t))"

text \<open>
  The logger object.  A data point is the list \<open>[time, x_pos, y_pos, vel_x, vel_y]\<close>,
  as \<open>log_data\<close> builds it.
\<close>

record PhysicsLogger =
  filename :: string
  data :: "real list list"
  headers :: "string list"

definition HEADERS :: "string list" where
  "HEADERS = [''Time'', ''X_Position'', ''Y_Position'', ''Velocity_X'', ''Velocity_Y'']"

text \<open>
  \<open>__init__\<close>.  The clock is read only when no name is given.  A failing \<open>open\<close>
  raises out of the constructor and no logger exists.
\<close>

definition PhysicsLogger_init ::
  "filesystem \<Rightarrow> datetime \<Rightarrow> string option \<Rightarrow> py_error + (PhysicsLogger \<times> filesystem)" where
  "PhysicsLogger_init fs now filename_arg =
     (let fname = (case filename_arg of
                     None \<Rightarrow> ''projectile_data_'' @ strftime now @ ''.csv''
                   | Some f \<Rightarrow> f);
          self = \<lparr>filename = fname, data = [], headers = HEADERS\<rparr>
      in case open_w fs (filename self) of
           Inl e \<Rightarrow> Inl e
         | Inr fs1 \<Rightarrow> Inr (self, writerow fs1 (filename self) (map Text (headers self))))"

text \<open>
  \<open>log_data\<close> appends to the list before it opens the file, so the logger is changed
  also when the write raises: the result is the logger and the outcome of the write.
\<close>

definition log_data ::
  "PhysicsLogger \<Rightarrow> filesystem \<Rightarrow> real \<Rightarrow> real \<Rightarrow> real \<Rightarrow> real \<Rightarrow> real
     \<Rightarrow> PhysicsLogger \<times> (py_error + filesystem)" where
  "log_data self fs time x_pos y_pos vel_x vel_y =
     (let data_point = [time, x_pos, y_pos, vel_x, vel_y];
          self1 = self\<lparr>data := data self @ [data_point]\<rparr>
      in (self1,
          case open_a fs (filename self1) of
            Inl e \<Rightarrow> Inl e
          | Inr fs1 \<Rightarrow> Inr (writerow fs1 (filename self1) (map Number data_point))))"

definition get_data_count :: "PhysicsLogger \<Rightarrow> nat" where
  "get_data_count self = length (data self)"

text \<open>
  \<open>save_final\<close> prints the number of data points and, when there is one, the line
  \<open>Time range: a to b\<close>.  The model returns the numbers printed.
\<close>

record final_report =
  points_saved :: nat
  time_range :: "(real \<times> real) option"

definition save_final :: "PhysicsLogger \<Rightarrow> final_report" where
  "save_final self =
     \<lparr>points_saved = length (data self),
      time_range = (if data self \<noteq> []
                    then Some ((data self ! 0) ! 0, (last (data self)) ! 0)
                    else None)\<rparr>"

text \<open>The time of every recorded data point, in the order of recording.\<close>

definition recorded_times :: "PhysicsLogger \<Rightarrow> real list" where
  "recorded_times self = map (\<lambda>data_point. data_point ! 0) (data self)"

definition clear_data ::
  "PhysicsLogger \<Rightarrow> filesystem \<Rightarrow> PhysicsLogger \<times> (py_error + filesystem)" where
  "clear_data self fs =
     (let self1 = self\<lparr>data := []\<rparr>
      in (self1,
          case open_w fs (filename self1) of
            Inl e \<Rightarrow> Inl e
          | Inr fs1 \<Rightarrow> Inr (writerow fs1 (filename self1) (map Text (headers self1)))))"

text \<open>The name the spec gives to generated files, as a test on strings.\<close>

definition is_digit :: "char \<Rightarrow> bool" where
  "is_digit ch \<longleftrightarrow> 48 \<le> (of_char ch :: nat) \<and> (of_char ch :: nat) \<le> 57"

definition is_timestamp :: "string \<Rightarrow> bool" where
  "is_timestamp ts \<longleftrightarrow>
     length ts = 15 \<and> list_all is_digit (take 8 ts) \<and> ts ! 8 = CHR ''_''
     \<and> list_all is_digit (drop 9 ts)"

definition generated_name :: "string \<Rightarrow> bool" where
  "generated_name s \<longleftrightarrow>
     take 16 s = ''projectile_data_'' \<and> is_timestamp (take 15 (drop 16 s))
     \<and> drop 31 s = ''.csv''"

text \<open>The wall clock reads a date of the common era with a year of four digits.\<close>

definition clock_reading :: "datetime \<Rightarrow> bool" where
  "clock_reading t \<longleftrightarrow>
     1000 \<le> year t \<and> year t \<le> 9999 \<and> 1 \<le> month t \<and> month t \<le> 12
     \<and> 1 \<le> day t \<and> day t \<le> 31 \<and> hour t < 24 \<and> minute t < 60 \<and> second t < 60"


section \<open>The analysis (graph.py)\<close>

text \<open>
  \<open>str.endswith\<close>, \<open>str.strip\<close> and \<open>str.lower\<close>.  A character is a code point
  below 256.  There \<open>str.isspace\<close> holds of the ASCII white space, of the four
  separators 28 to 31, of the next-line character 133 and of the no-break space 160;
  the upper-case letters are \<open>A\<close> to \<open>Z\<close> and the code points 192 to 222 other than
  the multiplication sign 215, each 32 below its lower-case letter.
\<close>

definition endswith :: "string \<Rightarrow> string \<Rightarrow> bool" where
  "endswith s suffix \<longleftrightarrow>
     length suffix \<le> length s \<and> drop (length s - length suffix) s = suffix"

definition is_space :: "char \<Rightarrow> bool" where
  "is_space ch \<longleftrightarrow>
     (of_char ch :: nat) \<in> {9, 10, 11, 12, 13, 28, 29, 30, 31, 32, 133, 160}"

definition strip :: "string \<Rightarrow> string" where
  "strip s = rev (dropWhile is_space (rev (dropWhile is_space s)))"

definition is_upper :: "char \<Rightarrow> bool" where
  "is_upper ch \<longleftrightarrow>
     (65 \<le> (of_char ch :: nat) \<and> (of_char ch :: nat) \<le> 90)
     \<or> (192 \<le> (of_char ch :: nat) \<and> (of_char ch :: nat) \<le> 222
         \<and> (of_char ch :: nat) \<noteq> 215)"

definition lower_char :: "char \<Rightarrow> char" where
  "lower_char ch = (if is_upper ch then char_of ((of_char ch :: nat) + 32) else ch)"

definition lower :: "string \<Rightarrow> string" where
  "lower s = map lower_char s"

text \<open>
  \<open>get_csv_filename_from_user\<close>.  \<open>input()\<close> takes the next line typed, and raises
  \<open>EOFError\<close> when there is none.  The result is the name and the lines left.
\<close>

definition input_line :: "string list \<Rightarrow> py_error + (string \<times> string list)" where
  "input_line typed = (case typed of [] \<Rightarrow> Inl EOFError | l # rest \<Rightarrow> Inr (l, rest))"

definition ask_filename :: "string list \<Rightarrow> py_error + (string \<times> string list)" where
  "ask_filename typed =
     (case input_line typed of
        Inl e \<Rightarrow> Inl e
      | Inr (l, rest) \<Rightarrow>
          (let filename = strip l
           in Inr (if endswith filename ''.csv'' then filename else filename @ ''.csv'', rest)))"

definition get_csv_filename_from_user ::
  "string option \<Rightarrow> string list \<Rightarrow> py_error + (string \<times> string list)" where
  "get_csv_filename_from_user latest_csv typed =
     (case latest_csv of
        None \<Rightarrow> ask_filename typed
      | Some latest \<Rightarrow>
          if latest \<noteq> [] then
            (case input_line typed of
               Inl e \<Rightarrow> Inl e
             | Inr (l, rest) \<Rightarrow>
                 (let use_latest = lower (strip l)
                  in if use_latest \<in> {''y'', []} then Inr (latest, rest)
                     else ask_filename rest))
          else ask_filename typed)"

text \<open>
  Lines 28 to 34.  The mass is an optional argument with default 1.0.  The velocity
  arguments \<open>vx\<close> and \<open>vy\<close> are written \<open>v_x\<close> and \<open>v_y\<close>, the former being
  fields of the ball.
\<close>

definition calculate_kinetic_energy :: "real \<Rightarrow> real \<Rightarrow> real option \<Rightarrow> real" where
  "calculate_kinetic_energy v_x v_y mass_arg =
     (let mass = (case mass_arg of None \<Rightarrow> 1.0 | Some m \<Rightarrow> m)
      in 0.5 * mass * (v_x ^ 2 + v_y ^ 2))"

definition calculate_displacement :: "real \<Rightarrow> real \<Rightarrow> real \<Rightarrow> real \<Rightarrow> real" where
  "calculate_displacement x y initial_x initial_y =
     sqrt ((x - initial_x) ^ 2 + (y - initial_y) ^ 2)"

text \<open>
  A loaded frame is the list of its rows; the five columns of the schema are the
  fields of a row.  \<open>pd.read_csv\<close> either raises \<open>FileNotFoundError\<close>, raises
  something else (a file of zero bytes, a directory, text that does not parse), or
  yields a frame.  A file that holds the header line and nothing else, which is what
  the logger's constructor leaves, yields the frame of zero rows.
\<close>

record sample =
  Time :: real
  X_Position :: real
  Y_Position :: real
  Velocity_X :: real
  Velocity_Y :: real

datatype read_csv = FileNotFoundError | OtherException | DataFrame "sample list"

datatype message = Loaded nat string | Could_not_find string | Error_reading_CSV

definition load_data :: "string \<Rightarrow> read_csv \<Rightarrow> message list \<times> sample list option" where
  "load_data csv_filename outcome =
     (case outcome of
        DataFrame df \<Rightarrow> ([Loaded (length df) csv_filename], Some df)
      | FileNotFoundError \<Rightarrow> ([Could_not_find csv_filename], None)
      | OtherException \<Rightarrow> ([Error_reading_CSV], None))"

text \<open>Indexing a numpy array at a position from the front.\<close>

definition item :: "'a list \<Rightarrow> nat \<Rightarrow> py_error + 'a" where
  "item xs i = (if i < length xs then Inr (xs ! i) else Inl IndexError)"

text \<open>
  \<open>generate_physics_graphs\<close>, lines 76 to 88: the frame is loaded and the two derived
  series are computed.  The plots and the printed summary that follow only read these
  series and the columns.  The result \<open>None\<close> is the early return.
\<close>

record derived =
  kinetic_energy :: "real list"
  displacement :: "real list"

definition generate_physics_graphs ::
  "string \<Rightarrow> read_csv \<Rightarrow> message list \<times> (py_error + derived option)" where
  "generate_physics_graphs csv_filename outcome =
     (case load_data csv_filename outcome of
        (out, None) \<Rightarrow> (out, Inr None)
      | (out, Some df) \<Rightarrow>
          (let x_pos = map X_Position df;
               y_pos = map Y_Position df;
               vx = map Velocity_X df;
               vy = map Velocity_Y df
           in case item x_pos 0 of
                Inl e \<Rightarrow> (out, Inl e)
              | Inr initial_x \<Rightarrow>
                  (case item y_pos 0 of
                     Inl e \<Rightarrow> (out, Inl e)
                   | Inr initial_y \<Rightarrow>
                       (out, Inr (Some
                          \<lparr>kinetic_energy =
                             map (\<lambda>i. calculate_kinetic_energy (vx ! i) (vy ! i) None)
                               [0..<length vx],
                           displacement =
                             map (\<lambda>i. calculate_displacement (x_pos ! i) (y_pos ! i)
                                        initial_x initial_y)
                               [0..<length x_pos]\<rparr>)))))"


section \<open>Properties of the physics update\<close>

lemma PIXELS_PER_METER_val: "PIXELS_PER_METER = 60"
  by (simp add: PIXELS_PER_METER_def HEIGHT_def)

lemma GROUND_Y_val: "GROUND_Y = 500"
  by (simp add: GROUND_Y_def HEIGHT_def)

lemma world_y_nonpos_iff: "world_y s \<le> 0 \<longleftrightarrow> ball_bottom_y s \<ge> GROUND_Y"
  by (simp add: world_y_def PIXELS_PER_METER_val divide_le_0_iff)

lemma resting_not_airborne:
  "ball_bottom_y s = GROUND_Y \<Longrightarrow> vx s = 0 \<Longrightarrow> vy s = 0 \<Longrightarrow> \<not> airborne s"
  by (simp add: airborne_def)

lemma not_airborne_update: "\<not> airborne s \<Longrightarrow> physics_update c delta_time s = s"
  by (simp add: physics_update_def)

lemma not_airborne_loop: "\<not> airborne s \<Longrightarrow> game_loop c frames s = s"
proof (induction frames arbitrary: s)
  case Nil
  show ?case by simp
next
  case (Cons f frames)
  obtain quit delta_time where f: "f = (quit, delta_time)" by (cases f)
  from Cons.prems have "physics_update c delta_time s = s"
    by (rule not_airborne_update)
  with Cons f show ?case by simp
qed

text \<open>
  C1. For every airborne state and every time increment \<open>dt > 0\<close> the update is
  semi-implicit Euler: the new vertical velocity is \<open>vy + gravity * dt\<close>, unclamped,
  and the position advances with the new velocity; in metres
  \<open>x + vx * dt\<close> and \<open>y + new_vy * dt\<close>, in pixels the same rule scaled by
  \<open>PIXELS_PER_METER\<close> with the y axis pointing down.  The frame's update is this
  integration followed by the ground check, and is the integration alone when the
  ball stays above the ground.
\<close>

theorem semi_implicit_euler_step:
  assumes "airborne s" and "0 < dt"
  shows "vy (integrate c dt s) = vy s + Gravity c * dt
    \<and> vx (integrate c dt s) = vx s
    \<and> world_x (integrate c dt s) = world_x s + vx s * dt
    \<and> world_y (integrate c dt s) = world_y s + vy (integrate c dt s) * dt
    \<and> ball_bottom_x (integrate c dt s) = ball_bottom_x s + vx s * dt * PIXELS_PER_METER
    \<and> ball_bottom_y (integrate c dt s)
        = ball_bottom_y s - vy (integrate c dt s) * dt * PIXELS_PER_METER
    \<and> physics_update c dt s = ground_check (integrate c dt s)
    \<and> (ball_bottom_y (integrate c dt s) < GROUND_Y
         \<longrightarrow> physics_update c dt s = integrate c dt s)"
  using assms
  by (simp add: integrate_def physics_update_def ground_check_def world_x_def world_y_def
      PIXELS_PER_METER_val Let_def field_simps)

theorem semi_implicit_euler_step_witness:
  "airborne \<lparr>ball_bottom_x = 0, ball_bottom_y = 440, vx = 1, vy = 2\<rparr>
   \<and> (0::real) < 1/10
   \<and> physics_update config_py (1/10) \<lparr>ball_bottom_x = 0, ball_bottom_y = 440, vx = 1, vy = 2\<rparr>
       = \<lparr>ball_bottom_x = 6, ball_bottom_y = 433.886, vx = 1, vy = 1.019\<rparr>"
  using semi_implicit_euler_step [of "\<lparr>ball_bottom_x = 0, ball_bottom_y = 440, vx = 1, vy = 2\<rparr>" "1/10" config_py]
  by (simp add: airborne_def integrate_def physics_update_def ground_check_def
      GROUND_Y_val PIXELS_PER_METER_val config_py_def)

text \<open>
  C2. For every airborne state, the update whose integration brings the ball to
  \<open>y \<le> 0\<close> (in pixels \<open>ball_bottom_y \<ge> GROUND_Y\<close>) leaves \<open>y\<close> at exactly 0
  (\<open>ball_bottom_y = GROUND_Y\<close>) and both velocities at exactly 0, so that the guard
  is false from then on; \<open>x\<close> keeps the value that this integration gave it.
\<close>

theorem ground_contact_step:
  assumes "airborne s" and "world_y (integrate c dt s) \<le> 0"
  shows "ball_bottom_y (physics_update c dt s) = GROUND_Y
    \<and> world_y (physics_update c dt s) = 0
    \<and> vx (physics_update c dt s) = 0
    \<and> vy (physics_update c dt s) = 0
    \<and> \<not> airborne (physics_update c dt s)
    \<and> ball_bottom_x (physics_update c dt s) = ball_bottom_x s + vx s * dt * PIXELS_PER_METER
    \<and> world_x (physics_update c dt s) = world_x s + vx s * dt"
proof -
  from assms(2) have "ball_bottom_y (integrate c dt s) \<ge> GROUND_Y"
    by (simp add: world_y_nonpos_iff)
  with assms(1) have upd: "physics_update c dt s
      = (integrate c dt s)\<lparr>ball_bottom_y := GROUND_Y, vx := 0, vy := 0\<rparr>"
    by (simp add: physics_update_def ground_check_def)
  show ?thesis
    unfolding upd
    by (simp add: airborne_def world_y_def world_x_def integrate_def PIXELS_PER_METER_val
        Let_def add_divide_distrib)
qed

theorem ground_contact_step_witness:
  "airborne \<lparr>ball_bottom_x = 0, ball_bottom_y = 497, vx = 1, vy = - 2\<rparr>
   \<and> world_y (integrate config_py (1/10) \<lparr>ball_bottom_x = 0, ball_bottom_y = 497, vx = 1, vy = - 2\<rparr>) \<le> 0
   \<and> physics_update config_py (1/10) \<lparr>ball_bottom_x = 0, ball_bottom_y = 497, vx = 1, vy = - 2\<rparr>
       = \<lparr>ball_bottom_x = 6, ball_bottom_y = 500, vx = 0, vy = 0\<rparr>"
  using ground_contact_step [of "\<lparr>ball_bottom_x = 0, ball_bottom_y = 497, vx = 1, vy = - 2\<rparr>" config_py "1/10"]
  by (simp add: airborne_def integrate_def world_y_def physics_update_def ground_check_def
      GROUND_Y_val PIXELS_PER_METER_val config_py_def)

text \<open>
  C3. A ball resting on the ground (\<open>ball_bottom_y = GROUND_Y\<close>, both velocities 0)
  stays as it is: one update, and every run of the loop over any frames, leave the
  four fields unchanged, and the guard stays false.
\<close>

theorem grounded_is_terminal:
  assumes "ball_bottom_y s = GROUND_Y" and "vx s = 0" and "vy s = 0"
  shows "physics_update c dt s = s \<and> game_loop c frames s = s
    \<and> \<not> airborne (game_loop c frames s)"
  using resting_not_airborne [OF assms]
  by (simp add: not_airborne_update not_airborne_loop)

theorem grounded_is_terminal_witness:
  "game_loop config_py [(False, 1/60), (False, 1/50), (True, 1/60)]
     \<lparr>ball_bottom_x = 120, ball_bottom_y = GROUND_Y, vx = 0, vy = 0\<rparr>
   = \<lparr>ball_bottom_x = 120, ball_bottom_y = GROUND_Y, vx = 0, vy = 0\<rparr>"
  using grounded_is_terminal [of "\<lparr>ball_bottom_x = 120, ball_bottom_y = GROUND_Y, vx = 0, vy = 0\<rparr>"
      config_py 0 "[(False, 1/60), (False, 1/50), (True, 1/60)]"]
  by simp

text \<open>
  C5. With initial height 0 and both initial velocity components 0 the guard is false
  before the first frame, the ball is at \<open>y = 0\<close>, and no update and no run of the
  loop changes the initial state.
\<close>

theorem zero_initial_state_is_grounded:
  assumes "InitialHeight c = 0" and "initialVelocityX c = 0" and "initialVelocityY c = 0"
  shows "\<not> airborne (initial_ball c)
    \<and> world_y (initial_ball c) = 0
    \<and> physics_update c dt (initial_ball c) = initial_ball c
    \<and> game_loop c frames (initial_ball c) = initial_ball c"
proof -
  from assms have "\<not> airborne (initial_ball c)"
    by (simp add: airborne_def initial_ball_def)
  moreover from assms(1) have "world_y (initial_ball c) = 0"
    by (simp add: world_y_def initial_ball_def)
  ultimately show ?thesis
    by (simp add: not_airborne_update not_airborne_loop)
qed

theorem zero_initial_state_is_grounded_witness:
  "InitialHeight (config_py\<lparr>Velocity := 0\<rparr>) = 0
   \<and> initialVelocityX (config_py\<lparr>Velocity := 0\<rparr>) = 0
   \<and> initialVelocityY (config_py\<lparr>Velocity := 0\<rparr>) = 0
   \<and> game_loop (config_py\<lparr>Velocity := 0\<rparr>) [(False, 1/60), (True, 1/60)]
        (initial_ball (config_py\<lparr>Velocity := 0\<rparr>))
      = \<lparr>ball_bottom_x = 0, ball_bottom_y = 500, vx = 0, vy = 0\<rparr>"
  using zero_initial_state_is_grounded [of "config_py\<lparr>Velocity := 0\<rparr>" 0 "[(False, 1/60), (True, 1/60)]"]
  by (simp add: config_py_def initialVelocityX_def initialVelocityY_def initial_ball_def
      GROUND_Y_val)


section \<open>Properties of the configuration\<close>

lemma sqrt2_bounds: "1.4142 < sqrt 2" "sqrt 2 < 1.4143"
proof -
  show "1.4142 < sqrt 2" by (rule real_less_rsqrt) (simp add: power2_eq_square)
  show "sqrt 2 < 1.4143" by (rule real_less_lsqrt) (simp_all add: power2_eq_square)
qed

lemma radians_45: "radians 45 = pi / 4"
  by (simp add: radians_def)

lemma config_py_vx: "initialVelocityX config_py = 9 * sqrt 2 / 2"
  by (simp add: initialVelocityX_def config_py_def radians_45 cos_45)

lemma config_py_vy: "initialVelocityY config_py = 9 * sqrt 2 / 2"
  by (simp add: initialVelocityY_def config_py_def radians_45 sin_45)

text \<open>
  C8. For every launch configuration the initial velocity components are
  \<open>speed * cos angle\<close> and \<open>speed * sin angle\<close> with the angle given in degrees and
  converted to radians first: they have the launch speed as their norm, an angle of
  90 gives a vertical launch, and the configuration of the file (45 degrees, speed 9)
  gives both components within 0.005 of 6.36.
\<close>

theorem initial_velocity_components:
  "initialVelocityX c = Velocity c * cos (Theta c * pi / 180)
   \<and> initialVelocityY c = Velocity c * sin (Theta c * pi / 180)
   \<and> (initialVelocityX c)\<^sup>2 + (initialVelocityY c)\<^sup>2 = (Velocity c)\<^sup>2
   \<and> initialVelocityX (c\<lparr>Theta := 90\<rparr>) = 0
   \<and> initialVelocityY (c\<lparr>Theta := 90\<rparr>) = Velocity c
   \<and> \<bar>initialVelocityX config_py - 6.36\<bar> < 0.005
   \<and> \<bar>initialVelocityY config_py - 6.36\<bar> < 0.005"
proof -
  have "(initialVelocityX c)\<^sup>2 + (initialVelocityY c)\<^sup>2
      = ((cos (radians (Theta c)))\<^sup>2 + (sin (radians (Theta c)))\<^sup>2) * (Velocity c)\<^sup>2"
    by (simp only: initialVelocityX_def initialVelocityY_def power_mult_distrib distrib_right)
  also have "\<dots> = (Velocity c)\<^sup>2"
    by (simp add: add.commute)
  finally have norm: "(initialVelocityX c)\<^sup>2 + (initialVelocityY c)\<^sup>2 = (Velocity c)\<^sup>2" .
  have r90: "radians 90 = pi / 2" by (simp add: radians_def)
  have near: "\<bar>9 * sqrt 2 / 2 - 6.36\<bar> < (0.005::real)"
    using sqrt2_bounds by simp
  show ?thesis
    using norm near
    by (simp add: initialVelocityX_def initialVelocityY_def radians_def r90 [unfolded radians_def]
        config_py_vx [unfolded initialVelocityX_def radians_def]
        config_py_vy [unfolded initialVelocityY_def radians_def])
qed


section \<open>Properties of the analysis\<close>

text \<open>
  C4. A missing file is reported and \<open>generate_physics_graphs\<close> returns early without
  computing anything, and so does it for a file that cannot be read.  A frame of
  zero rows is not checked for: reading \<open>x_pos[0]\<close> raises \<open>IndexError\<close>.
\<close>

theorem missing_file_returns_empty_frame_raises:
  "generate_physics_graphs name FileNotFoundError = ([Could_not_find name], Inr None)
   \<and> generate_physics_graphs name OtherException = ([Error_reading_CSV], Inr None)
   \<and> generate_physics_graphs name (DataFrame []) = ([Loaded 0 name], Inl IndexError)"
  by (simp add: generate_physics_graphs_def load_data_def item_def)

text \<open>
  C9. For a loaded trajectory with at least one sample, the kinetic energy series is
  \<open>0.5 * mass * (vx\<^sup>2 + vy\<^sup>2)\<close> of every sample with the default mass 1.0, the
  displacement series is the Euclidean distance of every sample from the first one,
  and the displacement of the first sample is exactly 0.
\<close>

theorem derived_series:
  assumes "df \<noteq> []"
  shows "generate_physics_graphs name (DataFrame df) =
      ([Loaded (length df) name],
       Inr (Some \<lparr>kinetic_energy =
                    map (\<lambda>s. 0.5 * 1.0 * ((Velocity_X s)\<^sup>2 + (Velocity_Y s)\<^sup>2)) df,
                  displacement =
                    map (\<lambda>s. sqrt ((X_Position s - X_Position (hd df))\<^sup>2
                                    + (Y_Position s - Y_Position (hd df))\<^sup>2)) df\<rparr>))
    \<and> hd (map (\<lambda>s. sqrt ((X_Position s - X_Position (hd df))\<^sup>2
                          + (Y_Position s - Y_Position (hd df))\<^sup>2)) df) = 0
    \<and> calculate_kinetic_energy v_x v_y None = 0.5 * 1.0 * (v_x\<^sup>2 + v_y\<^sup>2)
    \<and> calculate_kinetic_energy v_x v_y (Some m) = 0.5 * m * (v_x\<^sup>2 + v_y\<^sup>2)"
proof -
  from assms obtain s0 rest where df: "df = s0 # rest" by (cases df) auto
  have first: "item (map X_Position df) 0 = Inr (X_Position (hd df))"
      "item (map Y_Position df) 0 = Inr (Y_Position (hd df))"
    by (simp_all add: item_def df)
  have ke: "map (\<lambda>i. calculate_kinetic_energy (map Velocity_X df ! i) (map Velocity_Y df ! i) None)
               [0..<length (map Velocity_X df)]
      = map (\<lambda>s. 0.5 * 1.0 * ((Velocity_X s)\<^sup>2 + (Velocity_Y s)\<^sup>2)) df"
    by (rule nth_equalityI) (simp_all add: calculate_kinetic_energy_def)
  have disp: "map (\<lambda>i. calculate_displacement (map X_Position df ! i) (map Y_Position df ! i)
                     (X_Position (hd df)) (Y_Position (hd df)))
               [0..<length (map X_Position df)]
      = map (\<lambda>s. sqrt ((X_Position s - X_Position (hd df))\<^sup>2
                          + (Y_Position s - Y_Position (hd df))\<^sup>2)) df"
    by (rule nth_equalityI) (simp_all add: calculate_displacement_def)
  have gen: "generate_physics_graphs name (DataFrame df) =
      ([Loaded (length df) name],
       Inr (Some \<lparr>kinetic_energy =
                    map (\<lambda>s. 0.5 * 1.0 * ((Velocity_X s)\<^sup>2 + (Velocity_Y s)\<^sup>2)) df,
                  displacement =
                    map (\<lambda>s. sqrt ((X_Position s - X_Position (hd df))\<^sup>2
                                    + (Y_Position s - Y_Position (hd df))\<^sup>2)) df\<rparr>))"
    unfolding generate_physics_graphs_def load_data_def Let_def
    by (simp only: first ke disp read_csv.case prod.case option.case sum.case)
  have zero: "hd (map (\<lambda>s. sqrt ((X_Position s - X_Position (hd df))\<^sup>2
                          + (Y_Position s - Y_Position (hd df))\<^sup>2)) df) = 0"
    by (simp add: df)
  show ?thesis
    using gen zero by (simp add: calculate_kinetic_energy_def)
qed

theorem derived_series_witness:
  "[\<lparr>Time = 0, X_Position = 0, Y_Position = 0, Velocity_X = 3, Velocity_Y = 4\<rparr>,
    \<lparr>Time = 1, X_Position = 3, Y_Position = 0, Velocity_X = 3, Velocity_Y = 0\<rparr>] \<noteq> []
   \<and> generate_physics_graphs ''run.csv''
       (DataFrame [\<lparr>Time = 0, X_Position = 0, Y_Position = 0, Velocity_X = 3, Velocity_Y = 4\<rparr>,
                   \<lparr>Time = 1, X_Position = 3, Y_Position = 0, Velocity_X = 3, Velocity_Y = 0\<rparr>])
     = ([Loaded 2 ''run.csv''],
        Inr (Some \<lparr>kinetic_energy = [12.5, 4.5], displacement = [0, 3]\<rparr>))"
  using derived_series [of "[\<lparr>Time = 0, X_Position = 0, Y_Position = 0, Velocity_X = 3, Velocity_Y = 4\<rparr>,
    \<lparr>Time = 1, X_Position = 3, Y_Position = 0, Velocity_X = 3, Velocity_Y = 0\<rparr>]" "''run.csv''" 0 0 1]
  by simp


section \<open>Properties of the recorder\<close>

lemma sorted_hd_Min: "sorted xs \<Longrightarrow> xs \<noteq> [] \<Longrightarrow> hd xs = Min (set xs)"
  for xs :: "real list"
  by (cases xs) (auto intro!: Min_eqI [symmetric])

lemma sorted_last_Max: "sorted xs \<Longrightarrow> xs \<noteq> [] \<Longrightarrow> last xs = Max (set xs)"
  for xs :: "real list"
proof (induction xs)
  case Nil
  then show ?case by simp
next
  case (Cons x xs)
  show ?case
  proof (cases "xs = []")
    case True
    then show ?thesis by simp
  next
    case False
    with Cons have "last xs = Max (set xs)" by simp
    moreover from Cons.prems False have "x \<le> last xs" by simp
    ultimately show ?thesis using False by (simp add: max_def)
  qed
qed

text \<open>
  C7, amended. \<open>save_final\<close> reports the number of recorded entries and, when there
  is at least one, the time of the first and the time of the last recorded entry.
  These are the minimum and the maximum of the recorded times when the entries were
  recorded in non-decreasing order of time.
\<close>

theorem save_final_first_and_last:
  "points_saved (save_final self) = length (data self)
   \<and> get_data_count self = length (data self)
   \<and> (data self = [] \<longrightarrow> time_range (save_final self) = None)
   \<and> (data self \<noteq> [] \<longrightarrow>
        time_range (save_final self)
          = Some (hd (recorded_times self), last (recorded_times self)))
   \<and> (data self \<noteq> [] \<and> sorted (recorded_times self) \<longrightarrow>
        time_range (save_final self)
          = Some (Min (set (recorded_times self)), Max (set (recorded_times self))))"
proof -
  have fl: "data self \<noteq> [] \<Longrightarrow>
      time_range (save_final self) = Some (hd (recorded_times self), last (recorded_times self))"
    by (simp add: save_final_def recorded_times_def hd_map last_map hd_conv_nth)
  moreover have "data self \<noteq> [] \<Longrightarrow> sorted (recorded_times self) \<Longrightarrow>
      hd (recorded_times self) = Min (set (recorded_times self))
      \<and> last (recorded_times self) = Max (set (recorded_times self))"
    using sorted_hd_Min [of "recorded_times self"] sorted_last_Max [of "recorded_times self"]
    by (simp add: recorded_times_def)
  ultimately show ?thesis
    by (simp add: save_final_def get_data_count_def)
qed

theorem save_final_first_and_last_witness:
  "time_range (save_final (fst (log_data (fst (log_data
       \<lparr>filename = ''run.csv'', data = [], headers = HEADERS\<rparr>
       \<lparr>contents = Map.empty, unwritable = {}\<rparr> 0 0 0 3 4))
       \<lparr>contents = Map.empty, unwritable = {}\<rparr> 1 3 4 3 (- 6))))
   = Some (0, 1)
   \<and> Min (set (recorded_times (fst (log_data (fst (log_data
       \<lparr>filename = ''run.csv'', data = [], headers = HEADERS\<rparr>
       \<lparr>contents = Map.empty, unwritable = {}\<rparr> 0 0 0 3 4))
       \<lparr>contents = Map.empty, unwritable = {}\<rparr> 1 3 4 3 (- 6))))) = 0"
  using save_final_first_and_last [of "fst (log_data (fst (log_data
       \<lparr>filename = ''run.csv'', data = [], headers = HEADERS\<rparr>
       \<lparr>contents = Map.empty, unwritable = {}\<rparr> 0 0 0 3 4))
       \<lparr>contents = Map.empty, unwritable = {}\<rparr> 1 3 4 3 (- 6))"]
  by (simp add: log_data_def recorded_times_def Let_def)

text \<open>
  C7 as stated fails for entries recorded out of order: after recording time 2 and
  then time 1 the report reads 2 to 1, while the minimum is 1 and the maximum is 2.
\<close>

theorem time_span_not_min_max_counterexample:
  "time_range (save_final (fst (log_data (fst (log_data
       \<lparr>filename = ''run.csv'', data = [], headers = HEADERS\<rparr>
       \<lparr>contents = Map.empty, unwritable = {}\<rparr> 2 0 0 3 4))
       \<lparr>contents = Map.empty, unwritable = {}\<rparr> 1 3 4 3 (- 6))))
   = Some (2, 1)
   \<and> Min (set (recorded_times (fst (log_data (fst (log_data
       \<lparr>filename = ''run.csv'', data = [], headers = HEADERS\<rparr>
       \<lparr>contents = Map.empty, unwritable = {}\<rparr> 2 0 0 3 4))
       \<lparr>contents = Map.empty, unwritable = {}\<rparr> 1 3 4 3 (- 6))))) = 1
   \<and> Max (set (recorded_times (fst (log_data (fst (log_data
       \<lparr>filename = ''run.csv'', data = [], headers = HEADERS\<rparr>
       \<lparr>contents = Map.empty, unwritable = {}\<rparr> 2 0 0 3 4))
       \<lparr>contents = Map.empty, unwritable = {}\<rparr> 1 3 4 3 (- 6))))) = 2"
  by (simp add: log_data_def recorded_times_def save_final_def Let_def)

text \<open>
  C10. The constructor and \<open>clear_data\<close> open the file for writing: whatever the
  file held before, afterwards it holds exactly the header row
  \<open>Time,X_Position,Y_Position,Velocity_X,Velocity_Y\<close>, and the list of entries
  in memory is empty.  Both succeed whenever the file can be opened.
\<close>

theorem init_and_clear_leave_header_only:
  "(PhysicsLogger_init fs now filename_arg = Inr (lg, fsa) \<longrightarrow>
      contents fsa (filename lg)
        = Some [[Text ''Time'', Text ''X_Position'', Text ''Y_Position'',
                 Text ''Velocity_X'', Text ''Velocity_Y'']]
      \<and> data lg = [] \<and> headers lg = HEADERS)
   \<and> (headers self = HEADERS \<and> clear_data self fs = (cleared, Inr fsb) \<longrightarrow>
      contents fsb (filename self)
        = Some [[Text ''Time'', Text ''X_Position'', Text ''Y_Position'',
                 Text ''Velocity_X'', Text ''Velocity_Y'']]
      \<and> data cleared = [] \<and> filename cleared = filename self \<and> headers cleared = HEADERS)
   \<and> (filename self \<notin> unwritable fs \<longrightarrow> (\<exists>fsc. snd (clear_data self fs) = Inr fsc))
   \<and> (name \<notin> unwritable fs \<longrightarrow>
        (\<exists>fsc. PhysicsLogger_init fs now (Some name)
           = Inr (\<lparr>filename = name, data = [], headers = HEADERS\<rparr>, fsc)))"
  by (auto simp add: PhysicsLogger_init_def clear_data_def open_w_def writerow_def HEADERS_def
      Let_def split: if_splits)

theorem init_and_clear_leave_header_only_witness:
  "PhysicsLogger_init
     \<lparr>contents = [''run.csv'' \<mapsto> [[Text ''old''], [Number 1, Number 2]]], unwritable = {}\<rparr>
     \<lparr>year = 2026, month = 11, day = 4, hour = 8, minute = 14, second = 5\<rparr> (Some ''run.csv'')
   = Inr (\<lparr>filename = ''run.csv'', data = [], headers = HEADERS\<rparr>,
          \<lparr>contents = [''run.csv'' \<mapsto> [[Text ''Time'', Text ''X_Position'', Text ''Y_Position'',
                 Text ''Velocity_X'', Text ''Velocity_Y'']]], unwritable = {}\<rparr>)
   \<and> clear_data \<lparr>filename = ''run.csv'', data = [[0, 0, 0, 3, 4]], headers = HEADERS\<rparr>
       \<lparr>contents = [''run.csv'' \<mapsto> [[Text ''old''], [Number 1, Number 2]]], unwritable = {}\<rparr>
     = (\<lparr>filename = ''run.csv'', data = [], headers = HEADERS\<rparr>,
        Inr \<lparr>contents = [''run.csv'' \<mapsto> [[Text ''Time'', Text ''X_Position'', Text ''Y_Position'',
                 Text ''Velocity_X'', Text ''Velocity_Y'']]], unwritable = {}\<rparr>)"
  using init_and_clear_leave_header_only
    [where fs = "\<lparr>contents = [''run.csv'' \<mapsto> [[Text ''old''], [Number 1, Number 2]]], unwritable = {}\<rparr>"
       and now = "\<lparr>year = 2026, month = 11, day = 4, hour = 8, minute = 14, second = 5\<rparr>"
       and filename_arg = "Some ''run.csv''"
       and lg = "\<lparr>filename = ''run.csv'', data = [], headers = HEADERS\<rparr>"
       and fsa = "\<lparr>contents = [''run.csv'' \<mapsto> [[Text ''Time'', Text ''X_Position'', Text ''Y_Position'',
                 Text ''Velocity_X'', Text ''Velocity_Y'']]], unwritable = {}\<rparr>"
       and self = "\<lparr>filename = ''run.csv'', data = [[0, 0, 0, 3, 4]], headers = HEADERS\<rparr>"
       and cleared = "\<lparr>filename = ''run.csv'', data = [], headers = HEADERS\<rparr>"
       and fsb = "\<lparr>contents = [''run.csv'' \<mapsto> [[Text ''Time'', Text ''X_Position'', Text ''Y_Position'',
                 Text ''Velocity_X'', Text ''Velocity_Y'']]], unwritable = {}\<rparr>"
       and name = "''run.csv''"]
  by (simp add: PhysicsLogger_init_def clear_data_def open_w_def writerow_def HEADERS_def Let_def)

lemma is_digit_digit: "d < 10 \<Longrightarrow> is_digit (digit d)"
  by (simp add: is_digit_def digit_def)

lemma is_digit_zero: "is_digit CHR ''0''"
  by (simp add: is_digit_def)

lemma decimal_digits: "list_all is_digit (decimal n)"
proof (induction n rule: decimal.induct)
  case (1 n)
  show ?case
  proof (cases "n < 10")
    case True
    then show ?thesis by (subst decimal.simps) (simp add: is_digit_digit)
  next
    case False
    with 1 have "list_all is_digit (decimal (n div 10))" by simp
    with False show ?thesis by (subst decimal.simps) (simp add: is_digit_digit)
  qed
qed

lemma decimal_length: "0 < k \<Longrightarrow> n < 10 ^ k \<Longrightarrow> length (decimal n) \<le> k"
proof (induction n arbitrary: k rule: decimal.induct)
  case (1 n)
  show ?case
  proof (cases "n < 10")
    case True
    with 1 show ?thesis by (subst decimal.simps) simp
  next
    case False
    with "1.prems" obtain j where k: "k = Suc j" by (cases k) auto
    with False "1.prems" have "0 < j" by (cases j) auto
    moreover from k "1.prems" have "n div 10 < 10 ^ j"
      by (simp add: less_mult_imp_div_less mult.commute)
    ultimately have "length (decimal (n div 10)) \<le> j"
      using "1.IH" False by simp
    with False k show ?thesis by (subst decimal.simps) simp
  qed
qed

lemma zfill_shape:
  "length s \<le> w \<Longrightarrow> list_all is_digit s
   \<Longrightarrow> length (zfill w s) = w \<and> list_all is_digit (zfill w s)"
  by (auto simp: zfill_def is_digit_zero list_all_iff)

lemma field_two: "n < 100 \<Longrightarrow>
    length (zfill 2 (decimal n)) = 2 \<and> list_all is_digit (zfill 2 (decimal n))"
  using decimal_length [of 2 n] by (intro zfill_shape) (simp_all add: decimal_digits)

lemma field_four: "n \<le> 9999 \<Longrightarrow>
    length (zfill 4 (decimal n)) = 4 \<and> list_all is_digit (zfill 4 (decimal n))"
  using decimal_length [of 4 n] by (intro zfill_shape) (simp_all add: decimal_digits)

lemma timestamp_shape:
  assumes "length a = 4" "length b = 2" "length c = 2" "length d = 2" "length e = 2"
    "length f = 2"
    and "list_all is_digit a" "list_all is_digit b" "list_all is_digit c"
    "list_all is_digit d" "list_all is_digit e" "list_all is_digit f"
  shows "is_timestamp (a @ b @ c @ ''_'' @ d @ e @ f)"
  using assms by (simp add: is_timestamp_def nth_append)

lemma strftime_is_timestamp: "clock_reading t \<Longrightarrow> is_timestamp (strftime t)"
  unfolding strftime_def clock_reading_def
  by (intro timestamp_shape) (simp_all add: field_two field_four)

lemma generated_nameI: "is_timestamp ts \<Longrightarrow> generated_name (''projectile_data_'' @ ts @ ''.csv'')"
  by (simp add: generated_name_def is_timestamp_def)

lemma endswith_append: "endswith (s @ t) t"
  by (simp add: endswith_def)

lemma ask_filename_csv: "ask_filename typed = Inr (chosen, rest) \<Longrightarrow> endswith chosen ''.csv''"
  unfolding ask_filename_def input_line_def Let_def
  by (cases typed) (auto simp: endswith_append split: if_splits)

lemma ask_filename_typed:
  "ask_filename (l # rest)
     = Inr (if endswith (strip l) ''.csv'' then strip l else strip l @ ''.csv'', rest)"
  by (simp add: ask_filename_def input_line_def Let_def)

text \<open>
  C6, amended. When no filename is supplied, the recorder's name is
  \<open>projectile_data_<YYYYMMDD_HHMMSS>.csv\<close>.  A name supplied by the caller is used
  by the recorder as it is, with no suffix added.  The suffix \<open>.csv\<close> is enforced
  only on a name typed at the prompt of the analysis: the name returned is the typed
  line stripped of surrounding white space, unchanged when it ends with \<open>.csv\<close> and
  with \<open>.csv\<close> appended otherwise.  \<open>get_csv_filename_from_user\<close> asks for that
  name at once when no latest file is offered, returns the latest file when the
  answer to its offer is \<open>y\<close> or empty, and asks for the name on the next line on
  any other answer; so it returns the latest file or a name that ends with \<open>.csv\<close>.
\<close>

theorem recorder_filename:
  "(clock_reading now \<and> PhysicsLogger_init fs now None = Inr (lg, fsa) \<longrightarrow>
       filename lg = ''projectile_data_'' @ strftime now @ ''.csv''
       \<and> generated_name (filename lg))
   \<and> (PhysicsLogger_init fs now (Some name) = Inr (lg, fsa) \<longrightarrow> filename lg = name)
   \<and> (get_csv_filename_from_user latest_csv typed = Inr (chosen, rest) \<longrightarrow>
        latest_csv = Some chosen \<or> endswith chosen ''.csv'')
   \<and> ask_filename (l # later)
        = Inr (if endswith (strip l) ''.csv'' then strip l else strip l @ ''.csv'', later)
   \<and> (latest_csv = None \<or> latest_csv = Some [] \<longrightarrow>
        get_csv_filename_from_user latest_csv (l # later)
          = Inr (if endswith (strip l) ''.csv'' then strip l else strip l @ ''.csv'', later))
   \<and> (latest \<noteq> [] \<and> lower (strip l) \<in> {''y'', []} \<longrightarrow>
        get_csv_filename_from_user (Some latest) (l # later) = Inr (latest, later))
   \<and> (latest \<noteq> [] \<and> lower (strip l) \<notin> {''y'', []} \<longrightarrow>
        get_csv_filename_from_user (Some latest) (l # k # later)
          = Inr (if endswith (strip k) ''.csv'' then strip k else strip k @ ''.csv'', later))
   \<and> get_csv_filename_from_user latest_csv [] = Inl EOFError"
proof (intro conjI impI)
  assume h: "clock_reading now \<and> PhysicsLogger_init fs now None = Inr (lg, fsa)"
  then show fn: "filename lg = ''projectile_data_'' @ strftime now @ ''.csv''"
    by (auto simp: PhysicsLogger_init_def Let_def split: sum.splits)
  from h show "generated_name (filename lg)"
    unfolding fn by (intro generated_nameI strftime_is_timestamp) simp
next
  assume "PhysicsLogger_init fs now (Some name) = Inr (lg, fsa)"
  then show "filename lg = name"
    by (auto simp: PhysicsLogger_init_def Let_def split: sum.splits)
next
  assume "get_csv_filename_from_user latest_csv typed = Inr (chosen, rest)"
  then show "latest_csv = Some chosen \<or> endswith chosen ''.csv''"
    unfolding get_csv_filename_from_user_def input_line_def Let_def
    by (auto dest: ask_filename_csv split: option.splits if_splits list.splits)
next
  show "ask_filename (l # later)
      = Inr (if endswith (strip l) ''.csv'' then strip l else strip l @ ''.csv'', later)"
    by (rule ask_filename_typed)
next
  assume "latest_csv = None \<or> latest_csv = Some []"
  then show "get_csv_filename_from_user latest_csv (l # later)
      = Inr (if endswith (strip l) ''.csv'' then strip l else strip l @ ''.csv'', later)"
    by (auto simp: get_csv_filename_from_user_def ask_filename_typed)
next
  assume "latest \<noteq> [] \<and> lower (strip l) \<in> {''y'', []}"
  then show "get_csv_filename_from_user (Some latest) (l # later) = Inr (latest, later)"
    by (auto simp: get_csv_filename_from_user_def input_line_def Let_def)
next
  assume "latest \<noteq> [] \<and> lower (strip l) \<notin> {''y'', []}"
  then show "get_csv_filename_from_user (Some latest) (l # k # later)
      = Inr (if endswith (strip k) ''.csv'' then strip k else strip k @ ''.csv'', later)"
    by (simp add: get_csv_filename_from_user_def input_line_def Let_def ask_filename_typed)
next
  show "get_csv_filename_from_user latest_csv [] = Inl EOFError"
    by (simp add: get_csv_filename_from_user_def input_line_def ask_filename_def
        split: option.splits)
qed

theorem recorder_filename_witness:
  "clock_reading \<lparr>year = 2026, month = 11, day = 4, hour = 8, minute = 14, second = 5\<rparr>
   \<and> PhysicsLogger_init \<lparr>contents = Map.empty, unwritable = {}\<rparr>
        \<lparr>year = 2026, month = 11, day = 4, hour = 8, minute = 14, second = 5\<rparr> None
      = Inr (\<lparr>filename = ''projectile_data_20261104_081405.csv'', data = [], headers = HEADERS\<rparr>,
             \<lparr>contents = [''projectile_data_20261104_081405.csv'' \<mapsto> [map Text HEADERS]],
                unwritable = {}\<rparr>)
   \<and> generated_name ''projectile_data_20261104_081405.csv''
   \<and> get_csv_filename_from_user (Some ''projectile_data_1.csv'') [''N'', ''  mine ''] = Inr (''mine.csv'', [])
   \<and> endswith ''mine.csv'' ''.csv''
   \<and> get_csv_filename_from_user (Some ''projectile_data_1.csv'') [''N'', '' run.csv''] = Inr (''run.csv'', [])
   \<and> get_csv_filename_from_user None [''run.csv'', ''x''] = Inr (''run.csv'', [''x''])
   \<and> get_csv_filename_from_user (Some ''projectile_data_1.csv'') [[CHR ''Y'', CHR 0xA0], ''z'']
       = Inr (''projectile_data_1.csv'', [''z''])"
proof -
  have d: "decimal 2026 = ''2026''" "decimal 11 = ''11''" "decimal 4 = ''4''"
    "decimal 8 = ''8''" "decimal 14 = ''14''" "decimal 5 = ''5''"
    by code_simp+
  have init: "PhysicsLogger_init \<lparr>contents = Map.empty, unwritable = {}\<rparr>
        \<lparr>year = 2026, month = 11, day = 4, hour = 8, minute = 14, second = 5\<rparr> None
      = Inr (\<lparr>filename = ''projectile_data_20261104_081405.csv'', data = [], headers = HEADERS\<rparr>,
             \<lparr>contents = [''projectile_data_20261104_081405.csv'' \<mapsto> [map Text HEADERS]],
                unwritable = {}\<rparr>)"
    by (simp add: PhysicsLogger_init_def open_w_def writerow_def strftime_def zfill_def d Let_def)
  have clk: "clock_reading \<lparr>year = 2026, month = 11, day = 4, hour = 8, minute = 14, second = 5\<rparr>"
    by (simp add: clock_reading_def)
  have typed: "strip ''N'' = ''N''" "lower ''N'' = ''n''" "strip ''  mine '' = ''mine''"
    "strip '' run.csv'' = ''run.csv''" "strip ''run.csv'' = ''run.csv''"
    "\<not> endswith ''mine'' ''.csv''" "endswith ''run.csv'' ''.csv''" "endswith ''mine.csv'' ''.csv''"
    "strip [CHR ''Y'', CHR 0xA0] = ''Y''" "lower ''Y'' = ''y''"
    by code_simp+
  note inst = recorder_filename
    [where now = "\<lparr>year = 2026, month = 11, day = 4, hour = 8, minute = 14, second = 5\<rparr>"
       and fs = "\<lparr>contents = Map.empty, unwritable = {}\<rparr>"
       and lg = "\<lparr>filename = ''projectile_data_20261104_081405.csv'', data = [], headers = HEADERS\<rparr>"
       and fsa = "\<lparr>contents = [''projectile_data_20261104_081405.csv'' \<mapsto> [map Text HEADERS]],
                unwritable = {}\<rparr>"
       and latest = "''projectile_data_1.csv''"]
  from inst [where latest_csv = "Some ''projectile_data_1.csv''" and typed = "[''N'', ''  mine '']"
       and chosen = "''mine.csv''" and rest = "[]" and l = "''N''" and k = "''  mine ''"
       and later = "[]"]
    inst [where l = "''N''" and k = "'' run.csv''" and later = "[]"]
    inst [where latest_csv = None and l = "''run.csv''" and later = "[''x'']"]
    inst [where l = "[CHR ''Y'', CHR 0xA0]" and later = "[''z'']"]
  show ?thesis using clk init by (simp add: typed)
qed

text \<open>
  C6 as stated fails for the recorder: constructed with the name \<open>data\<close> it writes
  to the file \<open>data\<close>, which does not end with \<open>.csv\<close>.
\<close>

theorem caller_name_without_suffix_counterexample:
  "PhysicsLogger_init \<lparr>contents = Map.empty, unwritable = {}\<rparr>
      \<lparr>year = 2026, month = 11, day = 4, hour = 8, minute = 14, second = 5\<rparr> (Some ''data'')
     = Inr (\<lparr>filename = ''data'', data = [], headers = HEADERS\<rparr>,
            \<lparr>contents = [''data'' \<mapsto> [map Text HEADERS]], unwritable = {}\<rparr>)
   \<and> \<not> endswith ''data'' ''.csv''"
  by (simp add: PhysicsLogger_init_def open_w_def writerow_def endswith_def Let_def)

end
